theory Spec2Isabelle
  imports Complex_Main
begin

section \<open>Event protocol (studio/types/events.py)\<close>

text \<open>
  Modelled from the spec: the declarations of \<^verbatim>\<open>studio/types/dsl.py\<close>
  (\<^verbatim>\<open>ExecutionStatus\<close>, \<^verbatim>\<open>Timestamps\<close>, \<^verbatim>\<open>ExecutionState\<close>,
  \<^verbatim>\<open>WorkflowExecutionState\<close>, \<^verbatim>\<open>Node\<close>, \<^verbatim>\<open>Workflow\<close>), which is missing.
  A status is one of running, success and error; time stamps are in milliseconds. The
  records carry the fields that \<^verbatim>\<open>events.py\<close> and \<^verbatim>\<open>app.py\<close> read or write; a
  field that a constructor call leaves out is absent (\<open>None\<close>), as the protocol
  prescribes for optional fields.
\<close>

datatype ExecutionStatus = status_running | status_success | status_error

record Timestamps =
  started_at :: "int option"
  finished_at :: "int option"
  stopped_at :: "int option"

definition Timestamps_empty :: Timestamps where
  "Timestamps_empty = \<lparr>started_at = None, finished_at = None, stopped_at = None\<rparr>"

record Node =
  Node_id :: string

record Workflow =
  api_key :: string
  workflow_id :: string

record ExecutionState =
  status :: ExecutionStatus
  trace_id :: "string option"
  timestamps :: "Timestamps option"
  inputs :: "(string \<times> string) list option"
  outputs :: "(string \<times> string) list option"
  cost :: "real option"
  error :: "string option"

subsection \<open>Client events\<close>

record ExecuteComponentPayload =
  trace_id :: string
  workflow :: Workflow
  node_id :: string
  inputs :: "(string \<times> string) list"

record StopExecutionPayload =
  trace_id :: string
  node_id :: "string option"

record ExecuteFlowPayload =
  trace_id :: string
  workflow :: Workflow
  until_node_id :: "string option"
  inputs :: "(string \<times> string) list list option"

datatype EvaluateOn = full | test | train

record ExecuteEvaluationPayload =
  run_id :: string
  workflow :: Workflow
  workflow_version_id :: string
  evaluate_on :: EvaluateOn

record StopEvaluationExecutionPayload =
  workflow :: Workflow
  run_id :: string

record ExecuteOptimizationParams =
  max_bootstrapped_demos :: "int option"
  max_labeled_demos :: "int option"
  max_rounds :: "int option"
  num_candidate_programs :: "int option"

datatype Optimizer = BootstrapFewShot | BootstrapFewShotWithRandomSearch

record ExecuteOptimizationPayload =
  run_id :: string
  workflow :: Workflow
  workflow_version_id :: string
  optimizer :: Optimizer
  params :: ExecuteOptimizationParams

record StopOptimizationExecutionPayload =
  workflow :: Workflow
  run_id :: string

datatype StudioClientEvent =
    IsAlive
  | ExecuteComponent ExecuteComponentPayload
  | StopExecution StopExecutionPayload
  | ExecuteFlow ExecuteFlowPayload
  | ExecuteEvaluation ExecuteEvaluationPayload
  | StopEvaluationExecution StopEvaluationExecutionPayload
  | ExecuteOptimization ExecuteOptimizationPayload
  | StopOptimizationExecution StopOptimizationExecutionPayload

text \<open>The \<^verbatim>\<open>type\<close> tag of each variant (the \<^verbatim>\<open>Literal\<close> default of its class).\<close>

fun event_type :: "StudioClientEvent \<Rightarrow> string" where
  "event_type IsAlive = ''is_alive''"
| "event_type (ExecuteComponent p) = ''execute_component''"
| "event_type (StopExecution p) = ''stop_execution''"
| "event_type (ExecuteFlow p) = ''execute_flow''"
| "event_type (ExecuteEvaluation p) = ''execute_evaluation''"
| "event_type (StopEvaluationExecution p) = ''stop_evaluation_execution''"
| "event_type (ExecuteOptimization p) = ''execute_optimization''"
| "event_type (StopOptimizationExecution p) = ''stop_optimization_execution''"

subsection \<open>Server events\<close>

record WorkflowExecutionState =
  status :: ExecutionStatus
  trace_id :: "string option"
  error :: "string option"
  result :: "(string \<times> string) list option"

text \<open>
  Modelled from the spec: the evaluation and optimization states of
  \<^verbatim>\<open>dsl.py\<close>, which is missing. Every status-carrying event has a status and
  millisecond timestamps; the stop handlers pass a run id, an error text and a
  \<^verbatim>\<open>stopped_at\<close> time.
\<close>

record EvaluationExecutionState =
  run_id :: "string option"
  status :: ExecutionStatus
  error :: "string option"
  timestamps :: Timestamps

record OptimizationExecutionState =
  run_id :: "string option"
  status :: ExecutionStatus
  error :: "string option"
  timestamps :: Timestamps

record ComponentStateChangePayload =
  component_id :: string
  execution_state :: ExecutionState

record ExecutionStateChangePayload =
  execution_state :: WorkflowExecutionState

record EvaluationStateChangePayload =
  evaluation_state :: EvaluationExecutionState

record OptimizationStateChangePayload =
  optimization_state :: OptimizationExecutionState

record DebugPayload =
  message :: string

record ErrorPayload =
  message :: string

datatype StudioServerEvent =
    IsAliveResponse
  | ComponentStateChange ComponentStateChangePayload
  | ExecutionStateChange ExecutionStateChangePayload
  | EvaluationStateChange EvaluationStateChangePayload
  | OptimizationStateChange OptimizationStateChangePayload
  | Debug DebugPayload
  | Error ErrorPayload
  | Done

subsection \<open>Event constructors\<close>

text \<open>
  The time stamp is an input: \<open>now\<close> is the value of
  \<^verbatim>\<open>int(time.time() * 1000)\<close> at the call, the wall clock in milliseconds.
\<close>

definition start_component_event ::
  "int \<Rightarrow> Node \<Rightarrow> string \<Rightarrow> (string \<times> string) list option \<Rightarrow> StudioServerEvent" where
  "start_component_event now node trace_id' inputs' =
    (let execution_state' =
       \<lparr>ExecutionState.status = status_running,
        ExecutionState.trace_id = Some trace_id',
        ExecutionState.timestamps = Some (Timestamps_empty\<lparr>started_at := Some now\<rparr>),
        ExecutionState.inputs = None,
        outputs = None,
        cost = None,
        ExecutionState.error = None\<rparr>;
       execution_state'' =
         (if inputs' \<noteq> None \<and> inputs' \<noteq> Some []
          then execution_state'\<lparr>ExecutionState.inputs := inputs'\<rparr>
          else execution_state')
     in ComponentStateChange
          \<lparr>component_id = Node_id node,
           ComponentStateChangePayload.execution_state = execution_state''\<rparr>)"

definition end_component_event ::
  "int \<Rightarrow> Node \<Rightarrow> string \<Rightarrow> (string \<times> string) list \<Rightarrow> real option \<Rightarrow> StudioServerEvent" where
  "end_component_event now node trace_id' outputs' cost' =
    ComponentStateChange
      \<lparr>component_id = Node_id node,
       ComponentStateChangePayload.execution_state =
         \<lparr>ExecutionState.status = status_success,
          ExecutionState.trace_id = Some trace_id',
          ExecutionState.timestamps = Some (Timestamps_empty\<lparr>finished_at := Some now\<rparr>),
          ExecutionState.inputs = None,
          outputs = Some outputs',
          cost = cost',
          ExecutionState.error = None\<rparr>\<rparr>"

definition component_error_event :: "int \<Rightarrow> string \<Rightarrow> string \<Rightarrow> string \<Rightarrow> StudioServerEvent" where
  "component_error_event now trace_id' node_id' error' =
    ComponentStateChange
      \<lparr>component_id = node_id',
       ComponentStateChangePayload.execution_state =
         \<lparr>ExecutionState.status = status_error,
          ExecutionState.trace_id = None,
          ExecutionState.timestamps = Some (Timestamps_empty\<lparr>finished_at := Some now\<rparr>),
          ExecutionState.inputs = None,
          outputs = None,
          cost = None,
          ExecutionState.error = Some error'\<rparr>\<rparr>"

section \<open>Worker runtime (studio/app.py)\<close>

text \<open>
  The work-execution collaborators (\<^verbatim>\<open>execute_component\<close>, \<^verbatim>\<open>execute_flow\<close>,
  \<^verbatim>\<open>execute_evaluation\<close>, \<^verbatim>\<open>execute_optimization\<close>) are external. One run of a
  collaborator is given by the events it yields, in order, and by how it ends: normally
  (\<open>None\<close>), or by raising an \<^verbatim>\<open>Exception\<close> whose \<^verbatim>\<open>repr\<close> is the given text,
  caught when \<^verbatim>\<open>int(time.time() * 1000)\<close> has the given value. A collaborator
  that never stops yielding has no finite run and is outside this model.
\<close>

type_synonym collaborator_run = "StudioServerEvent list \<times> (string \<times> int) option"

type_synonym collaborator = "StudioClientEvent \<Rightarrow> collaborator_run"

text \<open>
  The body of the \<^verbatim>\<open>match\<close> statement. The three stop variants have no arm of their
  own and reach the default arm. None of the arms lets an exception escape, so the
  outer \<^verbatim>\<open>except\<close> of \<^verbatim>\<open>execute_event\<close> has no run in this model.
\<close>

fun execute_event_match :: "collaborator \<Rightarrow> StudioClientEvent \<Rightarrow> StudioServerEvent list" where
  "execute_event_match collab IsAlive = [IsAliveResponse]"
| "execute_event_match collab (ExecuteComponent payload) =
     (case collab (ExecuteComponent payload) of
        (events, None) \<Rightarrow> events
      | (events, Some (e, now)) \<Rightarrow>
          events @ [component_error_event now
                      (ExecuteComponentPayload.trace_id payload)
                      (ExecuteComponentPayload.node_id payload) e])"
| "execute_event_match collab (ExecuteFlow payload) =
     (case collab (ExecuteFlow payload) of
        (events, None) \<Rightarrow> events
      | (events, Some (e, now)) \<Rightarrow> events @ [Error \<lparr>message = e\<rparr>])"
| "execute_event_match collab (ExecuteEvaluation payload) =
     (case collab (ExecuteEvaluation payload) of
        (events, None) \<Rightarrow> events
      | (events, Some (e, now)) \<Rightarrow> events @ [Error \<lparr>message = e\<rparr>])"
| "execute_event_match collab (ExecuteOptimization payload) =
     (case collab (ExecuteOptimization payload) of
        (events, None) \<Rightarrow> events
      | (events, Some (e, now)) \<Rightarrow> events @ [Error \<lparr>message = e\<rparr>])"
| "execute_event_match collab event =
     [Error \<lparr>message = ''Unknown event type from client: '' @ event_type event\<rparr>]"

definition execute_event :: "collaborator \<Rightarrow> StudioClientEvent \<Rightarrow> StudioServerEvent list" where
  "execute_event collab event =
     Debug \<lparr>DebugPayload.message = ''server starting execution''\<rparr>
       # execute_event_match collab event @ [Done]"

text \<open>
  \<^verbatim>\<open>event_worker\<close>: each round of the \<^verbatim>\<open>while True\<close> loop reads the inbound
  queue with a one second timeout. The reads are the input of the model: an assignment,
  the \<^verbatim>\<open>None\<close> sentinel, or \<^verbatim>\<open>queue.Empty\<close>. The result tells whether the loop
  was left (\<^verbatim>\<open>break\<close>) and what was put on the outbound queue. When the reads run
  out the worker is still waiting on its inbound queue.
\<close>

datatype inbound = Assignment StudioClientEvent | Sentinel | Inbound_empty

fun event_worker ::
  "collaborator \<Rightarrow> inbound list \<Rightarrow> StudioServerEvent list \<Rightarrow> bool \<times> StudioServerEvent list" where
  "event_worker collab [] queue_out = (False, queue_out)"
| "event_worker collab (Sentinel # rest) queue_out = (True, queue_out)"
| "event_worker collab (Assignment event # rest) queue_out =
     event_worker collab rest (queue_out @ execute_event collab event)"
| "event_worker collab (Inbound_empty # rest) queue_out = event_worker collab rest queue_out"

text \<open>The assignments among a list of reads of the inbound queue, in order.\<close>

fun assignments :: "inbound list \<Rightarrow> StudioClientEvent list" where
  "assignments [] = []"
| "assignments (Assignment event # rest) = event # assignments rest"
| "assignments (other # rest) = assignments rest"

section \<open>Execution supervisor (studio/app.py)\<close>

subsection \<open>Processes, queues and the table of running executions\<close>

text \<open>
  A \<^verbatim>\<open>multiprocessing.Process\<close> is known to the supervisor by its \<^verbatim>\<open>pid\<close>
  (absent while the process has not been started); a queue of server events, as the
  outbound queue of a worker is, by a handle. What the
  supervisor does to the outside is kept as a list of effects, in program order:
  yielding an event to the caller, putting an event on a queue, sleeping, sending a
  signal with \<^verbatim>\<open>os.kill\<close> (taken to find its target) and posting results to the
  reporting service (api key, experiment slug, run id, \<^verbatim>\<open>finished_at\<close>,
  \<^verbatim>\<open>stopped_at\<close>).
\<close>

datatype signal = SIGUSR1 | SIGTERM | SIGINT

record Process =
  pid :: "nat option"

type_synonym Queue = nat

record RunningProcess =
  process :: Process
  queue :: Queue

type_synonym RunningProcesses = "string \<rightharpoonup> RunningProcess"

datatype effect =
    Yield StudioServerEvent
  | Put Queue StudioServerEvent
  | Sleep real
  | Kill nat signal
  | PostResults string string string int int

fun yields :: "effect list \<Rightarrow> StudioServerEvent list" where
  "yields [] = []"
| "yields (Yield event # rest) = event # yields rest"
| "yields (other # rest) = yields rest"

definition kill_process :: "Process \<Rightarrow> effect list" where
  "kill_process process' = (case pid process' of None \<Rightarrow> [] | Some p \<Rightarrow> [Kill p SIGUSR1])"

fun get_trace_id :: "StudioClientEvent \<Rightarrow> string option" where
  "get_trace_id IsAlive = None"
| "get_trace_id (ExecuteComponent payload) = Some (ExecuteComponentPayload.trace_id payload)"
| "get_trace_id (StopExecution payload) = Some (StopExecutionPayload.trace_id payload)"
| "get_trace_id (ExecuteFlow payload) = Some (ExecuteFlowPayload.trace_id payload)"
| "get_trace_id (ExecuteEvaluation payload) = Some (ExecuteEvaluationPayload.run_id payload)"
| "get_trace_id (StopEvaluationExecution payload) =
     Some (StopEvaluationExecutionPayload.run_id payload)"
| "get_trace_id (ExecuteOptimization payload) = Some (ExecuteOptimizationPayload.run_id payload)"
| "get_trace_id (StopOptimizationExecution payload) =
     Some (StopOptimizationExecutionPayload.run_id payload)"

subsection \<open>What a handler sees of the rest of the system\<close>

text \<open>
  The handlers are coroutines of one cooperative scheduler: at every \<^verbatim>\<open>await\<close> and
  every \<^verbatim>\<open>yield\<close> other handlers may run and change the table. The environment of
  one handler run consists of:
  \<^item> \<open>clock\<close>: the readings of \<^verbatim>\<open>time.time()\<close> outside the poll loop, by call number;
  \<^item> \<open>clock_ms\<close>: the values of \<^verbatim>\<open>int(time.time() * 1000)\<close>, by call number;
  \<^item> \<open>others\<close>: what the other handlers do to the table while this one is suspended
    (during the grace sleep of \<^verbatim>\<open>stop_process\<close>; between the registration and the
    \<^verbatim>\<open>finally\<close> block of a supervised run);
  \<^item> \<open>submit\<close>: the worker process and outbound queue that \<^verbatim>\<open>pool.submit\<close> returns;
  \<^item> \<open>polls\<close>: what each round of the poll loop observes;
  \<^item> \<open>alive_at_exit\<close>: the reading of \<^verbatim>\<open>process.is_alive()\<close> in the \<^verbatim>\<open>finally\<close> block.
\<close>

datatype poll =
    Message real StudioServerEvent real
  | Empty real bool
  | Poll_raises real string
  | Poll_cancelled real

text \<open>
  \<open>Message now event now'\<close>: the clock shows \<open>now\<close> at the top of the round, the
  queue delivers \<open>event\<close>, and the clock shows \<open>now'\<close> after the event was relayed.
  \<open>Empty now alive\<close>: the queue is empty and \<^verbatim>\<open>process.is_alive()\<close> reads \<open>alive\<close>.
  \<open>Poll_raises now e\<close>: the read raises an \<^verbatim>\<open>Exception\<close> with \<^verbatim>\<open>repr\<close> \<open>e\<close>.
  \<open>Poll_cancelled now\<close>: the round is cut at its suspension point by a
  \<^verbatim>\<open>BaseException\<close> (the coroutine is cancelled, the caller closes the stream).
\<close>

record environment =
  clock :: "nat \<Rightarrow> real"
  clock_ms :: "nat \<Rightarrow> int"
  others :: "RunningProcesses \<Rightarrow> RunningProcesses"
  submit :: "Process \<times> Queue"
  polls :: "poll list"
  alive_at_exit :: bool

subsection \<open>The stop protocol\<close>

text \<open>\<open>None\<close> is the \<^verbatim>\<open>KeyError\<close> of \<^verbatim>\<open>running_processes[trace_id]\<close>.\<close>

definition stop_process ::
  "environment \<Rightarrow> string \<Rightarrow> RunningProcesses \<Rightarrow> (effect list \<times> RunningProcesses) option" where
  "stop_process env trace_id' running_processes =
     (case running_processes trace_id' of
        None \<Rightarrow> None
      | Some record' \<Rightarrow>
          (let after_sleep = others env running_processes
           in case after_sleep trace_id' of
                Some record'' \<Rightarrow>
                  Some ([Put (queue record') Done, Sleep 0.2] @ kill_process (process record''),
                        after_sleep(trace_id' := None))
              | None \<Rightarrow> Some ([Put (queue record') Done, Sleep 0.2], after_sleep)))"

subsection \<open>The poll loop\<close>

datatype loop_exit = Loop_done | Loop_timeout | Loop_raised string | Loop_cancelled | Loop_pending

definition after :: "effect list \<Rightarrow> loop_exit \<times> effect list \<Rightarrow> loop_exit \<times> effect list" where
  "after first r = (fst r, first @ snd r)"

text \<open>
  \<open>poll_loop timeout last_message_time time_since_last_message polls\<close> is the
  \<^verbatim>\<open>while\<close> loop of the supervisor from the test of its condition on. It ends with
  \<open>Loop_done\<close> at \<^verbatim>\<open>break\<close>, with \<open>Loop_timeout\<close> when the condition fails, with
  \<open>Loop_raised\<close> at an exception, and with \<open>Loop_pending\<close> when the observations
  run out while the loop is still going round.
\<close>

fun poll_loop :: "real \<Rightarrow> real \<Rightarrow> real \<Rightarrow> poll list \<Rightarrow> loop_exit \<times> effect list" where
  "poll_loop timeout last_message_time time_since_last_message [] =
     (if time_since_last_message < timeout then (Loop_pending, []) else (Loop_timeout, []))"
| "poll_loop timeout last_message_time time_since_last_message (Message now result' now' # rest) =
     (if time_since_last_message < timeout
      then (if result' = Done then (Loop_done, [Yield result'])
            else after [Yield result'] (poll_loop timeout now' (now - last_message_time) rest))
      else (Loop_timeout, []))"
| "poll_loop timeout last_message_time time_since_last_message (Empty now alive # rest) =
     (if time_since_last_message < timeout
      then (if timeout > 10 \<and> \<not> alive
            then (Loop_raised ''Exception('Runtime crashed')'', [])
            else after [Sleep 0.1] (poll_loop timeout last_message_time (now - last_message_time) rest))
      else (Loop_timeout, []))"
| "poll_loop timeout last_message_time time_since_last_message (Poll_raises now e # rest) =
     (if time_since_last_message < timeout then (Loop_raised e, []) else (Loop_timeout, []))"
| "poll_loop timeout last_message_time time_since_last_message (Poll_cancelled now # rest) =
     (if time_since_last_message < timeout then (Loop_cancelled, []) else (Loop_timeout, []))"

subsection \<open>Stop events of evaluations and optimizations\<close>

text \<open>
  Modelled from the spec: \<^verbatim>\<open>error_evaluation_event\<close> and
  \<^verbatim>\<open>error_optimization_event\<close> live in \<^verbatim>\<open>execute_evaluation.py\<close> and
  \<^verbatim>\<open>execute_optimization.py\<close>, which are missing. A stop request emits "the
  corresponding terminal state-change event": the state change of its kind, with the run
  id, the status \<^verbatim>\<open>error\<close>, the error text and the \<^verbatim>\<open>stopped_at\<close> time it is
  called with.
\<close>

definition error_evaluation_event :: "string \<Rightarrow> string \<Rightarrow> int \<Rightarrow> StudioServerEvent" where
  "error_evaluation_event run_id' error' stopped_at' =
     EvaluationStateChange
       \<lparr>evaluation_state =
          \<lparr>EvaluationExecutionState.run_id = Some run_id',
           EvaluationExecutionState.status = status_error,
           EvaluationExecutionState.error = Some error',
           EvaluationExecutionState.timestamps = Timestamps_empty\<lparr>stopped_at := Some stopped_at'\<rparr>\<rparr>\<rparr>"

definition error_optimization_event :: "string \<Rightarrow> string \<Rightarrow> int \<Rightarrow> StudioServerEvent" where
  "error_optimization_event run_id' error' stopped_at' =
     OptimizationStateChange
       \<lparr>optimization_state =
          \<lparr>OptimizationExecutionState.run_id = Some run_id',
           OptimizationExecutionState.status = status_error,
           OptimizationExecutionState.error = Some error',
           OptimizationExecutionState.timestamps = Timestamps_empty\<lparr>stopped_at := Some stopped_at'\<rparr>\<rparr>\<rparr>"

subsection \<open>The supervisor\<close>

text \<open>
  How a run of the generator ends: it returns, an exception leaves it, or (when the
  observations of the poll loop run out) it is still polling.
\<close>

datatype generator_exit = Returned | Propagated string | Polling

record outcome =
  exit :: generator_exit
  effects :: "effect list"
  table :: RunningProcesses

definition stream :: "outcome \<Rightarrow> StudioServerEvent list" where
  "stream out = yields (effects out)"

definition timeout_without_messages :: "StudioClientEvent \<Rightarrow> real" where
  "timeout_without_messages event =
     (case event of ExecuteOptimization payload \<Rightarrow> 120 * 60 | _ \<Rightarrow> 120)"

text \<open>
  \<^verbatim>\<open>if trace_id and trace_id not in running_processes\<close>: an absent or empty
  identifier is falsy.
\<close>

definition register ::
  "string option \<Rightarrow> Process \<Rightarrow> Queue \<Rightarrow> RunningProcesses \<Rightarrow> RunningProcesses" where
  "register trace_id' process' queue' running_processes =
     (case trace_id' of
        None \<Rightarrow> running_processes
      | Some t \<Rightarrow>
          if t \<noteq> [] \<and> t \<notin> dom running_processes
          then running_processes(t \<mapsto> \<lparr>process = process', queue = queue'\<rparr>)
          else running_processes)"

text \<open>\<^verbatim>\<open>if trace_id and trace_id in running_processes: del running_processes[trace_id]\<close>\<close>

definition unregister :: "string option \<Rightarrow> RunningProcesses \<Rightarrow> RunningProcesses" where
  "unregister trace_id' running_processes =
     (case trace_id' of
        None \<Rightarrow> running_processes
      | Some t \<Rightarrow>
          if t \<noteq> [] \<and> t \<in> dom running_processes
          then running_processes(t := None)
          else running_processes)"

text \<open>
  The part of \<^verbatim>\<open>execute_event_on_a_subprocess\<close> after the three stop branches:
  submit to the pool, register, poll, and clean up in the \<^verbatim>\<open>finally\<close> block. The
  table passed in is the table as it is when \<^verbatim>\<open>pool.submit\<close> has returned.
\<close>

definition supervise :: "environment \<Rightarrow> StudioClientEvent \<Rightarrow> RunningProcesses \<Rightarrow> outcome" where
  "supervise env event running_processes =
     (let process' = fst (submit env);
          queue' = snd (submit env);
          registered = register (get_trace_id event) process' queue' running_processes;
          loop = poll_loop (timeout_without_messages event) (clock env 0) 0 (polls env);
          cleanup = (if alive_at_exit env then kill_process process' else []);
          cleaned = unregister (get_trace_id event) (others env registered)
      in case fst loop of
           Loop_done \<Rightarrow>
             \<lparr>exit = Returned, effects = snd loop @ cleanup, table = cleaned\<rparr>
         | Loop_timeout \<Rightarrow>
             \<lparr>exit = Returned,
              effects = snd loop
                @ [Yield (Error \<lparr>message = ''Execution timed out''\<rparr>)]
                @ kill_process process' @ cleanup,
              table = cleaned\<rparr>
         | Loop_raised e \<Rightarrow>
             \<lparr>exit = Returned,
              effects = snd loop
                @ [Yield (Error \<lparr>message = ''Unexpected error: '' @ e\<rparr>)] @ cleanup,
              table = cleaned\<rparr>
         | Loop_cancelled \<Rightarrow>
             \<lparr>exit = Propagated ''CancelledError'', effects = snd loop @ cleanup, table = cleaned\<rparr>
         | Loop_pending \<Rightarrow>
             \<lparr>exit = Polling, effects = snd loop, table = registered\<rparr>)"

fun execute_event_on_a_subprocess ::
  "environment \<Rightarrow> StudioClientEvent \<Rightarrow> RunningProcesses \<Rightarrow> outcome" where
  "execute_event_on_a_subprocess env (StopExecution payload) running_processes =
     (let trace_id' = StopExecutionPayload.trace_id payload
      in if trace_id' \<in> dom running_processes
         then (case stop_process env trace_id' running_processes of
                 None \<Rightarrow> \<lparr>exit = Propagated ''KeyError'', effects = [], table = running_processes\<rparr>
               | Some (stopping, stopped) \<Rightarrow>
                   \<lparr>exit = Returned,
                    effects = stopping @
                      [Yield (case StopExecutionPayload.node_id payload of
                                None \<Rightarrow> Error \<lparr>message = ''Interrupted''\<rparr>
                              | Some node_id' \<Rightarrow>
                                  if node_id' \<noteq> []
                                  then component_error_event (clock_ms env 0) trace_id' node_id'
                                         ''Interrupted''
                                  else Error \<lparr>message = ''Interrupted''\<rparr>)],
                    table = stopped\<rparr>)
         else \<lparr>exit = Returned, effects = [], table = running_processes\<rparr>)"
| "execute_event_on_a_subprocess env (StopEvaluationExecution payload) running_processes =
     (let run_id' = StopEvaluationExecutionPayload.run_id payload
      in if run_id' \<in> dom running_processes
         then (case stop_process env run_id' running_processes of
                 None \<Rightarrow> \<lparr>exit = Propagated ''KeyError'', effects = [], table = running_processes\<rparr>
               | Some (stopping, stopped) \<Rightarrow>
                   \<lparr>exit = Returned,
                    effects = stopping @
                      [PostResults
                         (api_key (StopEvaluationExecutionPayload.workflow payload))
                         (workflow_id (StopEvaluationExecutionPayload.workflow payload))
                         run_id' (clock_ms env 0) (clock_ms env 1),
                       Yield (error_evaluation_event run_id' ''Evaluation Stopped''
                                (clock_ms env 2))],
                    table = stopped\<rparr>)
         else \<lparr>exit = Returned, effects = [], table = running_processes\<rparr>)"
| "execute_event_on_a_subprocess env (StopOptimizationExecution payload) running_processes =
     (let run_id' = StopOptimizationExecutionPayload.run_id payload
      in if run_id' \<in> dom running_processes
         then (case stop_process env run_id' running_processes of
                 None \<Rightarrow> \<lparr>exit = Propagated ''KeyError'', effects = [], table = running_processes\<rparr>
               | Some (stopping, stopped) \<Rightarrow>
                   \<lparr>exit = Returned,
                    effects = stopping @
                      [Yield (error_optimization_event run_id' ''Optimization Stopped''
                                (clock_ms env 0))],
                    table = stopped\<rparr>)
         else \<lparr>exit = Returned, effects = [], table = running_processes\<rparr>)"
| "execute_event_on_a_subprocess env event running_processes =
     supervise env event running_processes"

subsection \<open>The synchronous endpoint\<close>

text \<open>
  \<^verbatim>\<open>execute_sync\<close> reads the supervisor's stream event by event. It returns a
  dictionary (\<open>Return\<close>), raises an \<^verbatim>\<open>HTTPException\<close> (\<open>Raise\<close>), lets an exception
  of the supervisor through (\<open>Unhandled\<close>), or is still reading (\<open>Waiting\<close>).
  An \<^verbatim>\<open>HTTPException\<close> constructed with \<^verbatim>\<open>detail=None\<close> carries the phrase of
  its status code as its detail; both calls here pass the status code 500, whose phrase is
  \<^verbatim>\<open>Internal Server Error\<close>.
\<close>

record HTTPException =
  status_code :: nat
  detail :: string

record SyncResponse =
  trace_id :: "string option"
  status :: string
  result :: "string option"

datatype sync_result = Return SyncResponse | Raise HTTPException | Unhandled string | Waiting

fun execute_sync_loop :: "StudioServerEvent list \<Rightarrow> sync_result option" where
  "execute_sync_loop [] = None"
| "execute_sync_loop (ExecutionStateChange payload # rest) =
     (let state = ExecutionStateChangePayload.execution_state payload
      in if WorkflowExecutionState.status state = status_success
         then Some (Return
                \<lparr>trace_id = WorkflowExecutionState.trace_id state,
                 status = ''success'',
                 result = (case WorkflowExecutionState.result state of
                             None \<Rightarrow> None
                           | Some d \<Rightarrow> if d \<noteq> [] then map_of d ''end'' else None)\<rparr>)
         else if WorkflowExecutionState.status state = status_error
         then Some (Raise
                \<lparr>status_code = 500,
                 detail = (case WorkflowExecutionState.error state of
                             None \<Rightarrow> ''Internal Server Error''
                           | Some e \<Rightarrow> e)\<rparr>)
         else execute_sync_loop rest)"
| "execute_sync_loop (response # rest) = execute_sync_loop rest"

definition execute_sync :: "environment \<Rightarrow> StudioClientEvent \<Rightarrow> RunningProcesses \<Rightarrow> sync_result" where
  "execute_sync env event running_processes =
     (let event_stream = execute_event_on_a_subprocess env event running_processes
      in case execute_sync_loop (stream event_stream) of
           Some r \<Rightarrow> r
         | None \<Rightarrow>
             (case exit event_stream of
                Returned \<Rightarrow>
                  Raise \<lparr>status_code = 500,
                         detail = ''Execution completed without success or error status''\<rparr>
              | Propagated e \<Rightarrow> Unhandled e
              | Polling \<Rightarrow> Waiting))"

subsection \<open>The shutdown handler\<close>

text \<open>
  \<^verbatim>\<open>shutdown_handler\<close> is installed for \<^verbatim>\<open>SIGTERM\<close> and \<^verbatim>\<open>SIGINT\<close> in the
  orchestrator and for \<^verbatim>\<open>SIGUSR1\<close> in a worker. What it touches of the process it
  runs in: the timer it arms (the delay, in seconds, after which the timer thread calls
  \<^verbatim>\<open>forceful_exit\<close>, that is \<^verbatim>\<open>os._exit(1)\<close>), and the \<^verbatim>\<open>SystemExit\<close> that
  \<^verbatim>\<open>sys.exit\<close> raises in the main thread (its exit code). The handler's three
  statements run in program order: \<^verbatim>\<open>timer.start()\<close>, then \<^verbatim>\<open>sys.exit(0)\<close>,
  which raises at once, then the \<^verbatim>\<open>finally\<close> block with \<^verbatim>\<open>timer.cancel()\<close>, run
  as the exception leaves the \<^verbatim>\<open>try\<close>.
\<close>

record runtime =
  timer :: "real option"
  system_exit :: "int option"

definition shutdown_handler :: "signal \<Rightarrow> runtime \<Rightarrow> runtime" where
  "shutdown_handler sig state =
     (let started = state\<lparr>timer := Some 3.0\<rparr>;
          exiting = started\<lparr>system_exit := Some 0\<rparr>;
          cancelled = exiting\<lparr>timer := None\<rparr>
      in cancelled)"

section \<open>Sample inputs\<close>

text \<open>Concrete collaborators, events, processes and environments for the examples below.\<close>

definition idle_collaborator :: collaborator where
  "idle_collaborator event = ([], None)"

definition payload_t1 :: StopExecutionPayload where
  "payload_t1 = \<lparr>StopExecutionPayload.trace_id = ''t1'', StopExecutionPayload.node_id = None\<rparr>"

definition stop_t1 :: StudioClientEvent where
  "stop_t1 = StopExecution payload_t1"

definition worker1 :: Process where
  "worker1 = \<lparr>pid = Some 4242\<rparr>"

definition quiet :: environment where
  "quiet = \<lparr>clock = (\<lambda>n. 0), clock_ms = (\<lambda>n. 0), others = (\<lambda>running. running),
            submit = (worker1, 7),
            polls = [], alive_at_exit = True\<rparr>"

definition flow_t1 :: StudioClientEvent where
  "flow_t1 = ExecuteFlow \<lparr>ExecuteFlowPayload.trace_id = ''t1'',
     ExecuteFlowPayload.workflow = \<lparr>api_key = ''key'', workflow_id = ''wf''\<rparr>,
     until_node_id = None, ExecuteFlowPayload.inputs = None\<rparr>"


definition relaying :: environment where
  "relaying = quiet\<lparr>polls := [Message 1 IsAliveResponse 2, Message 3 Done 4]\<rparr>"


definition record2 :: RunningProcess where
  "record2 = \<lparr>process = \<lparr>pid = Some 99\<rparr>, queue = 3\<rparr>"

definition working :: StudioServerEvent where
  "working = Debug \<lparr>DebugPayload.message = ''working''\<rparr>"


definition succeeded :: ExecutionStateChangePayload where
  "succeeded = \<lparr>ExecutionStateChangePayload.execution_state =
     \<lparr>WorkflowExecutionState.status = status_success,
      WorkflowExecutionState.trace_id = Some ''t1'',
      WorkflowExecutionState.error = None,
      WorkflowExecutionState.result = Some [(''answer'', ''6 x 7''), (''end'', ''42'')]\<rparr>\<rparr>"

definition failed :: ExecutionStateChangePayload where
  "failed = \<lparr>ExecutionStateChangePayload.execution_state =
     \<lparr>WorkflowExecutionState.status = status_error,
      WorkflowExecutionState.trace_id = Some ''t1'',
      WorkflowExecutionState.error = Some ''boom'',
      WorkflowExecutionState.result = None\<rparr>\<rparr>"

definition succeeding :: environment where
  "succeeding = quiet\<lparr>polls := [Message 1 working 2, Message 3 (ExecutionStateChange succeeded) 4,
                                 Message 5 Done 6]\<rparr>"

definition failing :: environment where
  "failing = quiet\<lparr>polls := [Message 1 working 2, Message 3 (ExecutionStateChange failed) 4,
                              Message 5 Done 6]\<rparr>"



section \<open>Properties of the event constructors\<close>

text \<open>
  C10. \<^verbatim>\<open>component_error_event\<close> ignores its \<^verbatim>\<open>trace_id\<close> argument: two calls
  that differ only in the trace id return the same event. The event is a component state
  change for the given node id whose execution state has the status \<^verbatim>\<open>error\<close>, the
  error text and a \<^verbatim>\<open>finished_at\<close> time stamp, and no trace id; the event of
  \<^verbatim>\<open>start_component_event\<close> carries the trace id it was given.
\<close>

theorem component_error_event_ignores_trace_id:
  "component_error_event now trace_id1 node_id' error' =
     component_error_event now trace_id2 node_id' error'
   \<and> (\<exists>payload. component_error_event now trace_id1 node_id' error' = ComponentStateChange payload
        \<and> component_id payload = node_id'
        \<and> ExecutionState.status (ComponentStateChangePayload.execution_state payload) = status_error
        \<and> ExecutionState.error (ComponentStateChangePayload.execution_state payload) = Some error'
        \<and> (\<exists>ts. ExecutionState.timestamps (ComponentStateChangePayload.execution_state payload)
                    = Some ts
               \<and> finished_at ts = Some now)
        \<and> ExecutionState.trace_id (ComponentStateChangePayload.execution_state payload) = None)
   \<and> (\<exists>payload. start_component_event now node trace_id1 inputs' = ComponentStateChange payload
        \<and> ExecutionState.trace_id (ComponentStateChangePayload.execution_state payload)
            = Some trace_id1)"
  by (simp add: component_error_event_def start_component_event_def Timestamps_empty_def Let_def)

section \<open>Properties of the worker runtime\<close>

text \<open>
  C2, as stated, fails: \<^verbatim>\<open>execute_event\<close> yields a \<^verbatim>\<open>debug\<close> event before it
  looks at the type tag. For a \<^verbatim>\<open>stop_execution\<close> event, which has no arm in the
  \<^verbatim>\<open>match\<close>, the stream has three events, the first of them \<^verbatim>\<open>debug\<close>.
\<close>

theorem unknown_tag_stream_counterexample:
  "execute_event idle_collaborator stop_t1 =
     [Debug \<lparr>DebugPayload.message = ''server starting execution''\<rparr>,
      Error \<lparr>message = ''Unknown event type from client: stop_execution''\<rparr>,
      Done]"
  by (simp add: execute_event_def stop_t1_def payload_t1_def)

text \<open>
  C2, amended. For every client event whose type tag is none of the five that
  \<^verbatim>\<open>execute_event\<close> matches, the stream is the opening \<^verbatim>\<open>debug\<close> event, then
  exactly one \<^verbatim>\<open>error\<close> event that names the tag, then \<^verbatim>\<open>done\<close>, and nothing
  else.
\<close>

theorem unknown_tag_stream:
  assumes "event_type event \<notin> {''is_alive'', ''execute_component'', ''execute_flow'',
             ''execute_evaluation'', ''execute_optimization''}"
  shows "execute_event collab event =
     [Debug \<lparr>DebugPayload.message = ''server starting execution''\<rparr>,
      Error \<lparr>message = ''Unknown event type from client: '' @ event_type event\<rparr>,
      Done]"
  using assms by (cases event) (simp_all add: execute_event_def)

theorem unknown_tag_stream_witness:
  "event_type stop_t1 \<notin> {''is_alive'', ''execute_component'', ''execute_flow'',
             ''execute_evaluation'', ''execute_optimization''}
   \<and> execute_event idle_collaborator stop_t1 =
     [Debug \<lparr>DebugPayload.message = ''server starting execution''\<rparr>,
      Error \<lparr>message = ''Unknown event type from client: '' @ event_type stop_t1\<rparr>,
      Done]"
proof -
  have h: "event_type stop_t1 \<notin> {''is_alive'', ''execute_component'', ''execute_flow'',
             ''execute_evaluation'', ''execute_optimization''}"
    by (simp add: stop_t1_def)
  show ?thesis using h unknown_tag_stream [OF h, of idle_collaborator] by simp
qed

text \<open>
  C4, as stated, fails: \<^verbatim>\<open>event_worker\<close> is a \<^verbatim>\<open>while True\<close> loop that goes
  back to its inbound queue after an assignment. Given two assignments and then the
  sentinel, one worker serves both.
\<close>

theorem event_worker_serves_two_counterexample:
  "event_worker idle_collaborator [Assignment IsAlive, Assignment IsAlive, Sentinel] [] =
     (True,
      [Debug \<lparr>DebugPayload.message = ''server starting execution''\<rparr>, IsAliveResponse, Done,
       Debug \<lparr>DebugPayload.message = ''server starting execution''\<rparr>, IsAliveResponse, Done])"
  by (simp add: execute_event_def)

text \<open>
  C4, amended. The worker runtime does not stop after an assignment. Whatever it reads
  from its inbound queue before the sentinel (assignments, and timeouts of the read in
  any number and at any place), it serves every assignment among the reads, in order, and
  leaves its loop only when it reads the sentinel: its outbound queue then holds the
  streams of all these assignments. As long as it has read no sentinel it has not left
  the loop: after an assignment, and after any number of timeouts, it is still reading its
  inbound queue.
\<close>

theorem event_worker_serves_until_sentinel:
  assumes "Sentinel \<notin> set reads"
  shows "event_worker collab (reads @ Sentinel # rest) queue_out =
           (True, queue_out @ concat (map (execute_event collab) (assignments reads)))
         \<and> event_worker collab reads queue_out =
           (False, queue_out @ concat (map (execute_event collab) (assignments reads)))"
  using assms
proof (induction reads arbitrary: queue_out)
  case Nil
  then show ?case by simp
next
  case (Cons read reads)
  then have "Sentinel \<notin> set reads" and "read \<noteq> Sentinel" by auto
  with Cons.IH show ?case by (cases read) simp_all
qed

theorem event_worker_serves_until_sentinel_witness:
  "Sentinel \<notin> set [Inbound_empty, Assignment IsAlive, Inbound_empty, Assignment stop_t1]
   \<and> event_worker idle_collaborator
        ([Inbound_empty, Assignment IsAlive, Inbound_empty, Assignment stop_t1] @ Sentinel # []) [] =
       (True, execute_event idle_collaborator IsAlive @ execute_event idle_collaborator stop_t1)
   \<and> event_worker idle_collaborator
        [Inbound_empty, Assignment IsAlive, Inbound_empty, Assignment stop_t1] [] =
       (False, execute_event idle_collaborator IsAlive @ execute_event idle_collaborator stop_t1)"
proof -
  have h: "Sentinel \<notin> set [Inbound_empty, Assignment IsAlive, Inbound_empty, Assignment stop_t1]"
    by simp
  show ?thesis
    using h event_worker_serves_until_sentinel [OF h, of idle_collaborator "[]" "[]"]
    by simp
qed

section \<open>Properties of the supervisor\<close>

subsection \<open>Auxiliary facts about the poll loop and the streams\<close>

lemma fst_after [simp]: "fst (after first r) = fst r"
  by (simp add: after_def)

lemma snd_after [simp]: "snd (after first r) = first @ snd r"
  by (simp add: after_def)

lemma yields_append [simp]: "yields (xs @ ys) = yields xs @ yields ys"
  by (induction xs rule: yields.induct) simp_all




lemma yields_kill_process [simp]: "yields (kill_process p) = []"
  by (simp add: kill_process_def split: option.split)






lemma non_stop_is_supervise:
  "event_type event \<notin> {''stop_execution'', ''stop_evaluation_execution'',
      ''stop_optimization_execution''} \<Longrightarrow>
   execute_event_on_a_subprocess env event rp = supervise env event rp"
  by (cases event) simp_all


lemma supervise_exit_polling:
  "exit (supervise env event rp) = Polling \<longleftrightarrow>
     fst (poll_loop (timeout_without_messages event) (clock env 0) 0 (polls env)) = Loop_pending"
  by (simp add: supervise_def Let_def split: loop_exit.split)

lemma supervise_table:
  "table (supervise env event rp) =
     (if fst (poll_loop (timeout_without_messages event) (clock env 0) 0 (polls env)) = Loop_pending
      then register (get_trace_id event) (fst (submit env)) (snd (submit env)) rp
      else unregister (get_trace_id event)
             (others env (register (get_trace_id event) (fst (submit env)) (snd (submit env)) rp)))"
  by (simp add: supervise_def Let_def split: loop_exit.split)







lemma yields_replicate_Sleep [simp]: "yields (replicate n (Sleep d)) = []"
  by (induction n) simp_all


lemma execute_sync_loop_skip:
  "\<forall>e\<in>set before. \<forall>p. e = ExecutionStateChange p \<longrightarrow>
        WorkflowExecutionState.status (ExecutionStateChangePayload.execution_state p)
          \<notin> {status_success, status_error} \<Longrightarrow>
   execute_sync_loop (before @ rest) = execute_sync_loop rest"
proof (induction before)
  case Nil
  then show ?case by simp
next
  case (Cons e before)
  then show ?case by (cases e) (simp_all add: Let_def)
qed

lemma execute_sync_loop_none:
  "\<forall>e\<in>set events. \<forall>p. e = ExecutionStateChange p \<longrightarrow>
        WorkflowExecutionState.status (ExecutionStateChangePayload.execution_state p)
          \<notin> {status_success, status_error} \<Longrightarrow>
   execute_sync_loop events = None"
  using execute_sync_loop_skip [of events "[]"] by simp

subsection \<open>The terminal marker\<close>




subsection \<open>Stop requests\<close>

text \<open>
  C3, as stated, fails in its second half: for a \<^verbatim>\<open>stop_execution\<close> with an
  unknown id the generator returns at once, and the stream is empty. No \<^verbatim>\<open>done\<close>
  terminates it.
\<close>

theorem stop_execution_unknown_id_counterexample:
  "exit (execute_event_on_a_subprocess quiet (StopExecution payload_t1) Map.empty) = Returned
   \<and> stream (execute_event_on_a_subprocess quiet (StopExecution payload_t1) Map.empty) = []"
  by (simp add: stream_def)

text \<open>
  C3, amended. For every \<^verbatim>\<open>stop_execution\<close> whose id has no record in the table
  the handler does nothing: it returns with no effect, the table is unchanged and the
  stream delivered to the caller is empty.
\<close>

theorem stop_execution_unknown_id:
  assumes "StopExecutionPayload.trace_id payload \<notin> dom running_processes"
  shows "execute_event_on_a_subprocess env (StopExecution payload) running_processes =
           \<lparr>exit = Returned, effects = [], table = running_processes\<rparr>
         \<and> stream (execute_event_on_a_subprocess env (StopExecution payload) running_processes) = []"
  using assms by (simp add: stream_def)

theorem stop_execution_unknown_id_witness:
  "StopExecutionPayload.trace_id payload_t1 \<notin> dom (Map.empty :: RunningProcesses)
   \<and> execute_event_on_a_subprocess quiet (StopExecution payload_t1) Map.empty =
           \<lparr>exit = Returned, effects = [], table = Map.empty\<rparr>
   \<and> stream (execute_event_on_a_subprocess quiet (StopExecution payload_t1) Map.empty) = []"
proof -
  have h: "StopExecutionPayload.trace_id payload_t1 \<notin> dom (Map.empty :: RunningProcesses)"
    by simp
  show ?thesis using h stop_execution_unknown_id [OF h, of quiet] by simp
qed





subsection \<open>The table of running executions\<close>

text \<open>
  C7. The table is a dictionary: it has at most one record per id. While a supervised
  run is polling, the table it has left behind agrees with the table it found on every id
  that had a record (nothing is overwritten); it differs from it only by one new record,
  and only when the event carries a non-empty id that had no record; and a non-empty id
  of the event has a record. On every exit of the supervisor (return or exception, stop
  branches included) a non-empty id of the event has no record.
\<close>

theorem one_record_per_execution:
  fixes env event running_processes
  defines "out \<equiv> execute_event_on_a_subprocess env event running_processes"
  shows
   "(event_type event \<notin> {''stop_execution'', ''stop_evaluation_execution'',
         ''stop_optimization_execution''} \<and> exit out = Polling \<longrightarrow>
       (\<forall>k\<in>dom running_processes. table out k = running_processes k)
       \<and> (table out \<noteq> running_processes \<longrightarrow>
            (\<exists>t. get_trace_id event = Some t \<and> t \<noteq> [] \<and> t \<notin> dom running_processes
               \<and> table out = running_processes
                    (t \<mapsto> \<lparr>process = fst (submit env), queue = snd (submit env)\<rparr>)))
       \<and> (\<forall>t. get_trace_id event = Some t \<and> t \<noteq> [] \<longrightarrow> t \<in> dom (table out)))
    \<and> (exit out \<noteq> Polling \<longrightarrow>
         (\<forall>t. get_trace_id event = Some t \<and> t \<noteq> [] \<longrightarrow> t \<notin> dom (table out)))"
proof (cases "event_type event \<in> {''stop_execution'', ''stop_evaluation_execution'',
         ''stop_optimization_execution''}")
  case True
  then show ?thesis unfolding out_def
    by (cases event)
       (auto simp: Let_def stop_process_def split: option.splits if_splits)
next
  case False
  then have sup: "out = supervise env event running_processes"
    unfolding out_def by (rule non_stop_is_supervise)
  show ?thesis unfolding sup
    by (auto simp: supervise_table supervise_exit_polling register_def unregister_def
          split: option.splits if_splits)
qed


theorem one_record_per_execution_witness:
  "event_type flow_t1 \<notin> {''stop_execution'', ''stop_evaluation_execution'',
         ''stop_optimization_execution''}
   \<and> get_trace_id flow_t1 = Some ''t1''
   \<and> exit (execute_event_on_a_subprocess quiet flow_t1 [''t1'' \<mapsto> record2]) = Polling
   \<and> table (execute_event_on_a_subprocess quiet flow_t1 [''t1'' \<mapsto> record2]) ''t1'' = Some record2
   \<and> exit (execute_event_on_a_subprocess relaying flow_t1 [''t1'' \<mapsto> record2]) \<noteq> Polling
   \<and> ''t1'' \<notin> dom (table (execute_event_on_a_subprocess relaying flow_t1 [''t1'' \<mapsto> record2]))"
proof -
  have h1: "event_type flow_t1 \<notin> {''stop_execution'', ''stop_evaluation_execution'',
         ''stop_optimization_execution''}"
    by (simp add: flow_t1_def)
  have h2: "get_trace_id flow_t1 = Some ''t1''"
    by (simp add: flow_t1_def)
  have h3: "exit (execute_event_on_a_subprocess quiet flow_t1 [''t1'' \<mapsto> record2]) = Polling"
    by (simp add: flow_t1_def quiet_def supervise_def timeout_without_messages_def)
  have h4: "exit (execute_event_on_a_subprocess relaying flow_t1 [''t1'' \<mapsto> record2]) \<noteq> Polling"
    by (simp add: flow_t1_def relaying_def quiet_def supervise_def timeout_without_messages_def)
  have h5: "''t1'' \<in> dom [''t1'' \<mapsto> record2]"
    by simp
  have "table (execute_event_on_a_subprocess quiet flow_t1 [''t1'' \<mapsto> record2]) ''t1''
          = [''t1'' \<mapsto> record2] ''t1''"
    using h1 h3 h5 one_record_per_execution [of flow_t1 quiet "[''t1'' \<mapsto> record2]"]
    by blast
  moreover have "''t1'' \<notin> dom (table (execute_event_on_a_subprocess relaying flow_t1
                                    [''t1'' \<mapsto> record2]))"
    using h2 h4 one_record_per_execution [of flow_t1 relaying "[''t1'' \<mapsto> record2]"]
    by simp
  ultimately show ?thesis using h1 h2 h3 h4 by simp
qed


subsection \<open>The inactivity budget\<close>






subsection \<open>The synchronous endpoint\<close>

text \<open>
  C9. \<^verbatim>\<open>execute_sync\<close> drives the supervisor's stream and forwards none of its
  events. The first execution state change whose status is \<^verbatim>\<open>success\<close> or
  \<^verbatim>\<open>error\<close> decides: on \<^verbatim>\<open>success\<close> the answer is the trace id of the state, the
  status \<^verbatim>\<open>success\<close> and the value of the key \<^verbatim>\<open>end\<close> in the state's result
  (nothing, if there is no result or no such key); on \<^verbatim>\<open>error\<close> an HTTP error 500
  is raised that carries the state's error text (and the phrase of the status code when
  the state has no error text). When the stream ends with no such event, an HTTP error 500
  with the text \<^verbatim>\<open>Execution completed without success or error status\<close> is raised.
\<close>

theorem execute_sync_outcomes:
  fixes env event running_processes
  defines "out \<equiv> execute_event_on_a_subprocess env event running_processes"
  shows
   "(\<forall>before payload rest.
       stream out = before @ ExecutionStateChange payload # rest
       \<and> (\<forall>e\<in>set before. \<forall>p. e = ExecutionStateChange p \<longrightarrow>
             WorkflowExecutionState.status (ExecutionStateChangePayload.execution_state p)
               \<notin> {status_success, status_error})
       \<and> WorkflowExecutionState.status (ExecutionStateChangePayload.execution_state payload)
           = status_success
       \<longrightarrow> execute_sync env event running_processes =
             Return \<lparr>trace_id = WorkflowExecutionState.trace_id
                                   (ExecutionStateChangePayload.execution_state payload),
                     status = ''success'',
                     result = (case WorkflowExecutionState.result
                                      (ExecutionStateChangePayload.execution_state payload) of
                                 None \<Rightarrow> None
                               | Some d \<Rightarrow> map_of d ''end'')\<rparr>)
    \<and> (\<forall>before payload rest.
       stream out = before @ ExecutionStateChange payload # rest
       \<and> (\<forall>e\<in>set before. \<forall>p. e = ExecutionStateChange p \<longrightarrow>
             WorkflowExecutionState.status (ExecutionStateChangePayload.execution_state p)
               \<notin> {status_success, status_error})
       \<and> WorkflowExecutionState.status (ExecutionStateChangePayload.execution_state payload)
           = status_error
       \<longrightarrow> execute_sync env event running_processes =
             Raise \<lparr>status_code = 500,
                    detail = (case WorkflowExecutionState.error
                                     (ExecutionStateChangePayload.execution_state payload) of
                                None \<Rightarrow> ''Internal Server Error''
                              | Some e \<Rightarrow> e)\<rparr>)
    \<and> ((\<forall>e\<in>set (stream out). \<forall>p. e = ExecutionStateChange p \<longrightarrow>
             WorkflowExecutionState.status (ExecutionStateChangePayload.execution_state p)
               \<notin> {status_success, status_error})
        \<and> exit out = Returned
       \<longrightarrow> execute_sync env event running_processes =
             Raise \<lparr>status_code = 500,
                    detail = ''Execution completed without success or error status''\<rparr>)"
proof (intro conjI allI impI)
  fix before payload rest
  assume a: "stream out = before @ ExecutionStateChange payload # rest
       \<and> (\<forall>e\<in>set before. \<forall>p. e = ExecutionStateChange p \<longrightarrow>
             WorkflowExecutionState.status (ExecutionStateChangePayload.execution_state p)
               \<notin> {status_success, status_error})
       \<and> WorkflowExecutionState.status (ExecutionStateChangePayload.execution_state payload)
           = status_success"
  then have "execute_sync_loop (stream out) = execute_sync_loop (ExecutionStateChange payload # rest)"
    using execute_sync_loop_skip [of before "ExecutionStateChange payload # rest"] by simp
  with a show "execute_sync env event running_processes =
             Return \<lparr>trace_id = WorkflowExecutionState.trace_id
                                   (ExecutionStateChangePayload.execution_state payload),
                     status = ''success'',
                     result = (case WorkflowExecutionState.result
                                      (ExecutionStateChangePayload.execution_state payload) of
                                 None \<Rightarrow> None
                               | Some d \<Rightarrow> map_of d ''end'')\<rparr>"
    unfolding out_def by (simp add: execute_sync_def Let_def split: option.split)
next
  fix before payload rest
  assume a: "stream out = before @ ExecutionStateChange payload # rest
       \<and> (\<forall>e\<in>set before. \<forall>p. e = ExecutionStateChange p \<longrightarrow>
             WorkflowExecutionState.status (ExecutionStateChangePayload.execution_state p)
               \<notin> {status_success, status_error})
       \<and> WorkflowExecutionState.status (ExecutionStateChangePayload.execution_state payload)
           = status_error"
  then have "execute_sync_loop (stream out) = execute_sync_loop (ExecutionStateChange payload # rest)"
    using execute_sync_loop_skip [of before "ExecutionStateChange payload # rest"] by simp
  with a show "execute_sync env event running_processes =
             Raise \<lparr>status_code = 500,
                    detail = (case WorkflowExecutionState.error
                                     (ExecutionStateChangePayload.execution_state payload) of
                                None \<Rightarrow> ''Internal Server Error''
                              | Some e \<Rightarrow> e)\<rparr>"
    unfolding out_def by (simp add: execute_sync_def Let_def split: option.split)
next
  assume a: "(\<forall>e\<in>set (stream out). \<forall>p. e = ExecutionStateChange p \<longrightarrow>
             WorkflowExecutionState.status (ExecutionStateChangePayload.execution_state p)
               \<notin> {status_success, status_error})
        \<and> exit out = Returned"
  then have "execute_sync_loop (stream out) = None"
    using execute_sync_loop_none [of "stream out"] by simp
  with a show "execute_sync env event running_processes =
             Raise \<lparr>status_code = 500,
                    detail = ''Execution completed without success or error status''\<rparr>"
    unfolding out_def by (simp add: execute_sync_def Let_def)
qed


theorem execute_sync_outcomes_witness:
  "stream (execute_event_on_a_subprocess succeeding flow_t1 Map.empty) =
     [working] @ ExecutionStateChange succeeded # [Done]
   \<and> execute_sync succeeding flow_t1 Map.empty =
       Return \<lparr>trace_id = Some ''t1'', status = ''success'', result = Some ''42''\<rparr>
   \<and> stream (execute_event_on_a_subprocess failing flow_t1 Map.empty) =
     [working] @ ExecutionStateChange failed # [Done]
   \<and> execute_sync failing flow_t1 Map.empty =
       Raise \<lparr>status_code = 500, detail = ''boom''\<rparr>
   \<and> stream (execute_event_on_a_subprocess relaying IsAlive Map.empty) = [IsAliveResponse, Done]
   \<and> exit (execute_event_on_a_subprocess relaying IsAlive Map.empty) = Returned
   \<and> execute_sync relaying IsAlive Map.empty =
       Raise \<lparr>status_code = 500,
              detail = ''Execution completed without success or error status''\<rparr>"
proof -
  have s1: "stream (execute_event_on_a_subprocess succeeding flow_t1 Map.empty) =
     [working] @ ExecutionStateChange succeeded # [Done]"
    by (simp add: succeeding_def quiet_def flow_t1_def supervise_def stream_def
          timeout_without_messages_def working_def worker1_def kill_process_def)
  have s2: "stream (execute_event_on_a_subprocess failing flow_t1 Map.empty) =
     [working] @ ExecutionStateChange failed # [Done]"
    by (simp add: failing_def quiet_def flow_t1_def supervise_def stream_def
          timeout_without_messages_def working_def worker1_def kill_process_def)
  have s3: "stream (execute_event_on_a_subprocess relaying IsAlive Map.empty) =
     [IsAliveResponse, Done]"
    by (simp add: relaying_def quiet_def supervise_def stream_def
          timeout_without_messages_def worker1_def kill_process_def)
  have x3: "exit (execute_event_on_a_subprocess relaying IsAlive Map.empty) = Returned"
    by (simp add: relaying_def quiet_def supervise_def timeout_without_messages_def)
  have u1: "\<forall>e\<in>set [working]. \<forall>p. e = ExecutionStateChange p \<longrightarrow>
             WorkflowExecutionState.status (ExecutionStateChangePayload.execution_state p)
               \<notin> {status_success, status_error}"
    by (simp add: working_def)
  have u3: "\<forall>e\<in>set (stream (execute_event_on_a_subprocess relaying IsAlive Map.empty)).
             \<forall>p. e = ExecutionStateChange p \<longrightarrow>
             WorkflowExecutionState.status (ExecutionStateChangePayload.execution_state p)
               \<notin> {status_success, status_error}"
    unfolding s3 by simp
  have ok: "WorkflowExecutionState.status (ExecutionStateChangePayload.execution_state succeeded)
              = status_success"
    by (simp add: succeeded_def)
  have ko: "WorkflowExecutionState.status (ExecutionStateChangePayload.execution_state failed)
              = status_error"
    by (simp add: failed_def)
  have "execute_sync succeeding flow_t1 Map.empty =
       Return \<lparr>trace_id = WorkflowExecutionState.trace_id
                                   (ExecutionStateChangePayload.execution_state succeeded),
               status = ''success'',
               result = (case WorkflowExecutionState.result
                                (ExecutionStateChangePayload.execution_state succeeded) of
                           None \<Rightarrow> None
                         | Some d \<Rightarrow> map_of d ''end'')\<rparr>"
    using s1 u1 ok execute_sync_outcomes [of succeeding flow_t1 Map.empty] by blast
  then have r1: "execute_sync succeeding flow_t1 Map.empty =
       Return \<lparr>trace_id = Some ''t1'', status = ''success'', result = Some ''42''\<rparr>"
    by (simp add: succeeded_def)
  have "execute_sync failing flow_t1 Map.empty =
       Raise \<lparr>status_code = 500,
              detail = (case WorkflowExecutionState.error
                               (ExecutionStateChangePayload.execution_state failed) of
                          None \<Rightarrow> ''Internal Server Error''
                        | Some e \<Rightarrow> e)\<rparr>"
    using s2 u1 ko execute_sync_outcomes [of failing flow_t1 Map.empty] by blast
  then have r2: "execute_sync failing flow_t1 Map.empty =
       Raise \<lparr>status_code = 500, detail = ''boom''\<rparr>"
    by (simp add: failed_def)
  have r3: "execute_sync relaying IsAlive Map.empty =
       Raise \<lparr>status_code = 500,
              detail = ''Execution completed without success or error status''\<rparr>"
    using u3 x3 execute_sync_outcomes [of relaying IsAlive Map.empty] by blast
  from s1 s2 s3 x3 r1 r2 r3 show ?thesis by blast
qed

section \<open>Properties of the shutdown handler\<close>

text \<open>
  C8. The code at a termination signal: when \<^verbatim>\<open>shutdown_handler\<close> is left, the
  \<^verbatim>\<open>SystemExit\<close> of the graceful exit is on its way and the three second timer has
  already been cancelled, whatever the state before. No timer is armed while the graceful
  exit proceeds, so nothing escalates if it stalls.
\<close>

theorem shutdown_handler_cancels_timer:
  "timer (shutdown_handler sig state) = None
   \<and> system_exit (shutdown_handler sig state) = Some 0"
  by (simp add: shutdown_handler_def)

end
